theory Spec2Isabelle
  imports Complex_Main "HOL-Library.Word"
begin

section \<open>Protocol types (main.go, lines 16-46)\<close>

text \<open>
  A value decoded by encoding/json into \<^verbatim>\<open>interface{}\<close>: nil, bool, float64, string,
  slice or map. A float64 is modelled by the real number it denotes.
\<close>

datatype jvalue =
    JNull
  | JBool bool
  | JNum real
  | JStr string
  | JArr "jvalue list"
  | JObj "(string \<times> jvalue) list"

text \<open>\<^verbatim>\<open>map[string]interface{}\<close>: a missing key reads as nil, here \<open>None\<close>.\<close>

type_synonym arguments = "string \<rightharpoonup> jvalue"

text \<open>
  The \<^verbatim>\<open>json.RawMessage\<close> of a request's params, represented by what
  \<^verbatim>\<open>json.Unmarshal(req.Params, &params)\<close> (standard library) makes of it in
  \<open>handleToolCall\<close>: an error with its text (params absent, not an object, a name
  that is not a string, arguments that are not an object), or the two fields
  \<^verbatim>\<open>Name\<close> and \<^verbatim>\<open>Arguments\<close>.
\<close>

datatype raw_params =
    Undecodable string
  | Decodes string arguments

record MCPRequest =
  JSONRPC :: string
  ID :: jvalue
  Method :: string
  Params :: raw_params

record MCPError =
  Code :: int
  Message :: string

record SchemaProperty =
  prop_name :: string
  prop_type :: string
  prop_description :: string

record Schema =
  schema_type :: string
  properties :: "SchemaProperty list"
  required :: "string list option"

record Tool =
  Name :: string
  Description :: string
  InputSchema :: Schema

text \<open>
  The three shapes of \<^verbatim>\<open>Result\<close> the server builds: the initialize payload
  (protocol version, server name, server version), the tool catalog, and the
  one-element text content of a tool call.
\<close>

datatype result =
    InitializeResult string string string
  | ToolList "Tool list"
  | Content string

text \<open>\<^verbatim>\<open>Result\<close> and \<^verbatim>\<open>Error\<close> are nil (\<open>None\<close>) unless set.\<close>

record MCPResponse =
  rJSONRPC :: string
  rID :: jvalue
  Result :: "result option"
  Error :: "MCPError option"

section \<open>The browser driver (go-rod) and the operating system\<close>

text \<open>\<^verbatim>\<open>time.Duration\<close> is an int64 count of nanoseconds.\<close>

type_synonym duration = "64 word"

datatype Browser = Browser nat

datatype Elem = Elem nat

text \<open>
  A \<^verbatim>\<open>*rod.Page\<close>: the page it controls and the deadlines of its context, innermost
  first. A page obtained from \<^verbatim>\<open>MustPage\<close> has none.
\<close>

record Page =
  target :: nat
  deadlines :: "duration list"

text \<open>
  go-rod's \<^verbatim>\<open>func (p *Page) Timeout(d time.Duration) *Page\<close> "returns a clone with the
  specified total timeout of all chained sub-operations": the receiver is not modified.
\<close>

definition Timeout :: "Page \<Rightarrow> duration \<Rightarrow> Page" where
  "Timeout p d = p\<lparr>deadlines := d # deadlines p\<rparr>"

text \<open>
  The calls the server makes to the driver and to the operating system. The world is the
  list of calls made so far, oldest first.
\<close>

datatype call =
    LookPath
  | MustLaunch string
  | MustConnect string
  | MustPage Browser
  | Navigate Page string
  | WaitLoad Page
  | Element Page string
  | Click Elem
  | Now
  | TempDir
  | MkdirAll string
  | Screenshot Page bool
  | WriteFile string string
  | Attribute Elem string
  | Text Elem
  | Eval Page string
  | SelectAllText Elem
  | Input Elem string
  | PageClose Page
  | BrowserClose Browser

type_synonym world = "call list"

type_synonym error = string

text \<open>
  The driver is opaque: what a call answers is a function of the calls made before it
  and of its arguments. A Go \<^verbatim>\<open>error\<close> is \<open>None\<close> for nil, else its text. The
  \<^verbatim>\<open>Must\<close> methods of go-rod panic where the plain ones return an error: \<open>Inl e\<close> is
  that panic. \<open>PathJoin\<close> is \<^verbatim>\<open>filepath.Join\<close>, \<open>FmtFloat\<close> is \<^verbatim>\<open>%v\<close> of a float64.
\<close>

record driver =
  LookPath_r :: "world \<Rightarrow> string \<times> bool"
  MustLaunch_r :: "world \<Rightarrow> string \<Rightarrow> error + string"
  MustConnect_r :: "world \<Rightarrow> string \<Rightarrow> error + Browser"
  MustPage_r :: "world \<Rightarrow> Browser \<Rightarrow> error + Page"
  Navigate_r :: "world \<Rightarrow> Page \<Rightarrow> string \<Rightarrow> error option"
  WaitLoad_r :: "world \<Rightarrow> Page \<Rightarrow> error option"
  Element_r :: "world \<Rightarrow> Page \<Rightarrow> string \<Rightarrow> error + Elem"
  Click_r :: "world \<Rightarrow> Elem \<Rightarrow> error option"
  Now_r :: "world \<Rightarrow> int"
  TempDir_r :: "world \<Rightarrow> string"
  Screenshot_r :: "world \<Rightarrow> Page \<Rightarrow> bool \<Rightarrow> error + string"
  WriteFile_r :: "world \<Rightarrow> string \<Rightarrow> string \<Rightarrow> error option"
  Attribute_r :: "world \<Rightarrow> Elem \<Rightarrow> string \<Rightarrow> error + string option"
  Text_r :: "world \<Rightarrow> Elem \<Rightarrow> error + string"
  Eval_r :: "world \<Rightarrow> Page \<Rightarrow> string \<Rightarrow> error + string"
  SelectAllText_r :: "world \<Rightarrow> Elem \<Rightarrow> error option"
  Input_r :: "world \<Rightarrow> Elem \<Rightarrow> string \<Rightarrow> error option"
  PageClose_r :: "world \<Rightarrow> Page \<Rightarrow> error option"
  BrowserClose_r :: "world \<Rightarrow> Browser \<Rightarrow> error option"
  PathJoin :: "string \<Rightarrow> string \<Rightarrow> string"
  FmtFloat :: "real \<Rightarrow> string"

text \<open>A Go function either returns or panics.\<close>

datatype 'a outcome =
    Panic string
  | Return 'a

definition nil_dereference :: string where
  "nil_dereference = ''runtime error: invalid memory address or nil pointer dereference''"

section \<open>Server state (main.go, lines 42-46)\<close>

record Server =
  browser :: "Browser option"
  page :: "Page option"

section \<open>Helpers of the embedding\<close>

text \<open>The type assertions \<^verbatim>\<open>args[k].(string)\<close>, \<^verbatim>\<open>.(bool)\<close> and \<^verbatim>\<open>.(float64)\<close> with \<^verbatim>\<open>ok\<close>.\<close>

definition str_arg :: "arguments \<Rightarrow> string \<Rightarrow> string option" where
  "str_arg args k = (case args k of Some (JStr v) \<Rightarrow> Some v | _ \<Rightarrow> None)"

definition bool_arg :: "arguments \<Rightarrow> string \<Rightarrow> bool option" where
  "bool_arg args k = (case args k of Some (JBool v) \<Rightarrow> Some v | _ \<Rightarrow> None)"

definition float_arg :: "arguments \<Rightarrow> string \<Rightarrow> real option" where
  "float_arg args k = (case args k of Some (JNum v) \<Rightarrow> Some v | _ \<Rightarrow> None)"

definition quote :: string where
  "quote = [CHR 0x27]"

text \<open>\<^verbatim>\<open>%d\<close> of an int64.\<close>

definition digit :: "nat \<Rightarrow> char" where
  "digit d =
     (if d = 0 then CHR ''0'' else if d = 1 then CHR ''1'' else if d = 2 then CHR ''2''
      else if d = 3 then CHR ''3'' else if d = 4 then CHR ''4'' else if d = 5 then CHR ''5''
      else if d = 6 then CHR ''6'' else if d = 7 then CHR ''7'' else if d = 8 then CHR ''8''
      else CHR ''9'')"

fun digits :: "nat \<Rightarrow> string" where
  "digits n = (if n < 10 then [digit n] else digits (n div 10) @ [digit (n mod 10)])"

declare digits.simps [simp del]

definition fmt_int :: "int \<Rightarrow> string" where
  "fmt_int i = (if i < 0 then ''-'' @ digits (nat (- i)) else digits (nat i))"

text \<open>
  \<^verbatim>\<open>time.Duration(timeout) * time.Second\<close>: the conversion of the float64 to int64
  discards the fraction (Go specification, Conversions), then the product is taken in
  int64, which wraps around. For a float64 outside int64 the Go specification leaves the
  converted value to the implementation; it is taken modulo \<open>2 ^ 64\<close> here.
\<close>

definition truncate_float :: "real \<Rightarrow> int" where
  "truncate_float x = (if 0 \<le> x then \<lfloor>x\<rfloor> else \<lceil>x\<rceil>)"

definition Second :: duration where
  "Second = 1000000000"

definition seconds_to_duration :: "real \<Rightarrow> duration" where
  "seconds_to_duration timeout = word_of_int (truncate_float timeout) * Second"

section \<open>Session creation and teardown (main.go, lines 333-339 and 516-523)\<close>

text \<open>
  \<open>initBrowser\<close> discards the \<^verbatim>\<open>found\<close> flag of \<^verbatim>\<open>LookPath\<close>, assigns
  \<^verbatim>\<open>s.browser\<close> as soon as \<^verbatim>\<open>MustConnect\<close> has returned and \<^verbatim>\<open>s.page\<close> after
  \<^verbatim>\<open>MustPage\<close>. Its only normal return is \<^verbatim>\<open>return nil\<close>.
\<close>

definition initBrowser :: "driver \<Rightarrow> Server \<Rightarrow> world \<Rightarrow> error option outcome \<times> Server \<times> world" where
  "initBrowser drv s w =
     (let path = fst (LookPath_r drv w);
          w1 = w @ [LookPath]
      in case MustLaunch_r drv w1 path of
           Inl e \<Rightarrow> (Panic e, s, w1 @ [MustLaunch path])
         | Inr u \<Rightarrow>
             (let w2 = w1 @ [MustLaunch path]
              in case MustConnect_r drv w2 u of
                   Inl e \<Rightarrow> (Panic e, s, w2 @ [MustConnect u])
                 | Inr b \<Rightarrow>
                     (let s1 = s\<lparr>browser := Some b\<rparr>;
                          w3 = w2 @ [MustConnect u]
                      in case MustPage_r drv w3 b of
                           Inl e \<Rightarrow> (Panic e, s1, w3 @ [MustPage b])
                         | Inr p \<Rightarrow> (Return None, s1\<lparr>page := Some p\<rparr>, w3 @ [MustPage b]))))"

text \<open>The errors returned by the two \<^verbatim>\<open>Close\<close> calls are discarded.\<close>

definition cleanup :: "driver \<Rightarrow> Server \<Rightarrow> world \<Rightarrow> world" where
  "cleanup drv s w =
     (let w1 = (case page s of
                  None \<Rightarrow> w
                | Some p \<Rightarrow> (let closed = PageClose_r drv w p in w @ [PageClose p]))
      in case browser s of
           None \<Rightarrow> w1
         | Some b \<Rightarrow> (let closed = BrowserClose_r drv w1 b in w1 @ [BrowserClose b]))"

section \<open>The eight tools (main.go, lines 341-514)\<close>

text \<open>
  A tool reads \<^verbatim>\<open>s.page\<close> and never assigns a field of the server; it returns the
  pair \<^verbatim>\<open>(result, err)\<close> as \<open>Inr result\<close> or \<open>Inl err\<close>, or panics when it calls a
  method of a nil \<^verbatim>\<open>s.page\<close>.
\<close>

type_synonym tool_result = "(error + string) outcome \<times> world"

definition navigate :: "driver \<Rightarrow> Server \<Rightarrow> world \<Rightarrow> arguments \<Rightarrow> tool_result" where
  "navigate drv s w args =
     (case str_arg args ''url'' of
        None \<Rightarrow> (Return (Inl ''url must be a string''), w)
      | Some url \<Rightarrow>
          (case page s of
             None \<Rightarrow> (Panic nil_dereference, w)
           | Some p \<Rightarrow>
               (case Navigate_r drv w p url of
                  Some e \<Rightarrow> (Return (Inl e), w @ [Navigate p url])
                | None \<Rightarrow>
                    (case WaitLoad_r drv (w @ [Navigate p url]) p of
                       Some e \<Rightarrow> (Return (Inl e), w @ [Navigate p url, WaitLoad p])
                     | None \<Rightarrow>
                         (Return (Inr (''Successfully navigated to '' @ url)),
                          w @ [Navigate p url, WaitLoad p])))))"

definition click :: "driver \<Rightarrow> Server \<Rightarrow> world \<Rightarrow> arguments \<Rightarrow> tool_result" where
  "click drv s w args =
     (case str_arg args ''selector'' of
        None \<Rightarrow> (Return (Inl ''selector must be a string''), w)
      | Some selector \<Rightarrow>
          (case page s of
             None \<Rightarrow> (Panic nil_dereference, w)
           | Some p \<Rightarrow>
               (case Element_r drv w p selector of
                  Inl e \<Rightarrow> (Return (Inl (''element not found: '' @ selector)), w @ [Element p selector])
                | Inr elem \<Rightarrow>
                    (case Click_r drv (w @ [Element p selector]) elem of
                       Some e \<Rightarrow> (Return (Inl e), w @ [Element p selector, Click elem])
                     | None \<Rightarrow>
                         (Return (Inr (''Successfully clicked '' @ selector)),
                          w @ [Element p selector, Click elem])))))"

text \<open>The two optional arguments of \<open>screenshot\<close> (lines 377-385).\<close>

definition screenshot_filename :: "driver \<Rightarrow> world \<Rightarrow> arguments \<Rightarrow> string \<times> world" where
  "screenshot_filename drv w args =
     (case str_arg args ''filename'' of
        None \<Rightarrow> (''screenshot_'' @ fmt_int (Now_r drv w) @ ''.png'', w @ [Now])
      | Some filename \<Rightarrow>
          (if filename = []
           then (''screenshot_'' @ fmt_int (Now_r drv w) @ ''.png'', w @ [Now])
           else (filename, w)))"

definition screenshot_fullPage :: "arguments \<Rightarrow> bool" where
  "screenshot_fullPage args = (case bool_arg args ''fullPage'' of Some fp \<Rightarrow> fp | None \<Rightarrow> False)"

definition screenshot :: "driver \<Rightarrow> Server \<Rightarrow> world \<Rightarrow> arguments \<Rightarrow> tool_result" where
  "screenshot drv s w args =
     (let (filename, w1) = screenshot_filename drv w args;
          fullPage = screenshot_fullPage args;
          screenshotDir = PathJoin drv (TempDir_r drv w1) ''rod-screenshots'';
          w2 = w1 @ [TempDir, MkdirAll screenshotDir];
          path = PathJoin drv screenshotDir filename
      in case page s of
           None \<Rightarrow> (Panic nil_dereference, w2)
         | Some p \<Rightarrow>
             (case Screenshot_r drv w2 p fullPage of
                Inl e \<Rightarrow> (Return (Inl e), w2 @ [Screenshot p fullPage])
              | Inr data \<Rightarrow>
                  (case WriteFile_r drv (w2 @ [Screenshot p fullPage]) path data of
                     Some e \<Rightarrow> (Return (Inl e), w2 @ [Screenshot p fullPage, WriteFile path data])
                   | None \<Rightarrow>
                       (Return (Inr (''Screenshot saved to '' @ path)),
                        w2 @ [Screenshot p fullPage, WriteFile path data]))))"

definition getAttribute :: "driver \<Rightarrow> Server \<Rightarrow> world \<Rightarrow> arguments \<Rightarrow> tool_result" where
  "getAttribute drv s w args =
     (case str_arg args ''selector'' of
        None \<Rightarrow> (Return (Inl ''selector must be a string''), w)
      | Some selector \<Rightarrow>
          (case str_arg args ''attribute'' of
             None \<Rightarrow> (Return (Inl ''attribute must be a string''), w)
           | Some attribute \<Rightarrow>
               (case page s of
                  None \<Rightarrow> (Panic nil_dereference, w)
                | Some p \<Rightarrow>
                    (case Element_r drv w p selector of
                       Inl e \<Rightarrow>
                         (Return (Inl (''element not found: '' @ selector)), w @ [Element p selector])
                     | Inr elem \<Rightarrow>
                         (case Attribute_r drv (w @ [Element p selector]) elem attribute of
                            Inl e \<Rightarrow>
                              (Return (Inl e), w @ [Element p selector, Attribute elem attribute])
                          | Inr None \<Rightarrow>
                              (Return (Inr (''Attribute '' @ quote @ attribute @ quote @
                                            '' not found on '' @ selector)),
                               w @ [Element p selector, Attribute elem attribute])
                          | Inr (Some v) \<Rightarrow>
                              (Return (Inr (''Attribute '' @ quote @ attribute @ quote @
                                            '' on '' @ selector @ '' = '' @ quote @ v @ quote)),
                               w @ [Element p selector, Attribute elem attribute]))))))"

definition getText :: "driver \<Rightarrow> Server \<Rightarrow> world \<Rightarrow> arguments \<Rightarrow> tool_result" where
  "getText drv s w args =
     (case str_arg args ''selector'' of
        None \<Rightarrow> (Return (Inl ''selector must be a string''), w)
      | Some selector \<Rightarrow>
          (case page s of
             None \<Rightarrow> (Panic nil_dereference, w)
           | Some p \<Rightarrow>
               (case Element_r drv w p selector of
                  Inl e \<Rightarrow> (Return (Inl (''element not found: '' @ selector)), w @ [Element p selector])
                | Inr elem \<Rightarrow>
                    (case Text_r drv (w @ [Element p selector]) elem of
                       Inl e \<Rightarrow> (Return (Inl e), w @ [Element p selector, Text elem])
                     | Inr text \<Rightarrow>
                         (Return (Inr (''Text content of '' @ selector @ '': '' @
                                       quote @ text @ quote)),
                          w @ [Element p selector, Text elem])))))"

text \<open>The optional argument of \<open>waitFor\<close> (lines 459-462).\<close>

definition waitFor_timeout :: "arguments \<Rightarrow> real" where
  "waitFor_timeout args = (case float_arg args ''timeout'' of Some t \<Rightarrow> t | None \<Rightarrow> 30)"

text \<open>
  Lines 464 and 465 call \<^verbatim>\<open>s.page.Timeout\<close> as statements: the page each call returns is
  dropped (\<open>dropped\<close> at once, \<open>deferred\<close> when the function leaves), and
  \<^verbatim>\<open>s.page.Element\<close> is called on \<^verbatim>\<open>s.page\<close> itself.
\<close>

definition waitFor :: "driver \<Rightarrow> Server \<Rightarrow> world \<Rightarrow> arguments \<Rightarrow> tool_result" where
  "waitFor drv s w args =
     (case str_arg args ''selector'' of
        None \<Rightarrow> (Return (Inl ''selector must be a string''), w)
      | Some selector \<Rightarrow>
          (let timeout = waitFor_timeout args
           in case page s of
                None \<Rightarrow> (Panic nil_dereference, w)
              | Some p \<Rightarrow>
                  (let dropped = Timeout p (seconds_to_duration timeout);
                       found = Element_r drv w p selector;
                       deferred = Timeout p 0
                   in case found of
                        Inl e \<Rightarrow>
                          (Return (Inl (''element '' @ selector @ '' did not appear within '' @
                                        FmtFloat drv timeout @ '' seconds'')),
                           w @ [Element p selector])
                      | Inr elem \<Rightarrow>
                          (Return (Inr (''Element '' @ selector @ '' appeared'')),
                           w @ [Element p selector]))))"

text \<open>\<open>Eval_r\<close> answers with \<^verbatim>\<open>%v\<close> of \<^verbatim>\<open>result.Value\<close>.\<close>

definition eval :: "driver \<Rightarrow> Server \<Rightarrow> world \<Rightarrow> arguments \<Rightarrow> tool_result" where
  "eval drv s w args =
     (case str_arg args ''script'' of
        None \<Rightarrow> (Return (Inl ''script must be a string''), w)
      | Some script \<Rightarrow>
          (case page s of
             None \<Rightarrow> (Panic nil_dereference, w)
           | Some p \<Rightarrow>
               (case Eval_r drv w p script of
                  Inl e \<Rightarrow> (Return (Inl e), w @ [Eval p script])
                | Inr v \<Rightarrow> (Return (Inr (''JavaScript result: '' @ v)), w @ [Eval p script]))))"

definition fill :: "driver \<Rightarrow> Server \<Rightarrow> world \<Rightarrow> arguments \<Rightarrow> tool_result" where
  "fill drv s w args =
     (case str_arg args ''selector'' of
        None \<Rightarrow> (Return (Inl ''selector must be a string''), w)
      | Some selector \<Rightarrow>
          (case str_arg args ''text'' of
             None \<Rightarrow> (Return (Inl ''text must be a string''), w)
           | Some text \<Rightarrow>
               (case page s of
                  None \<Rightarrow> (Panic nil_dereference, w)
                | Some p \<Rightarrow>
                    (case Element_r drv w p selector of
                       Inl e \<Rightarrow>
                         (Return (Inl (''element not found: '' @ selector)), w @ [Element p selector])
                     | Inr elem \<Rightarrow>
                         (case SelectAllText_r drv (w @ [Element p selector]) elem of
                            Some e \<Rightarrow>
                              (Return (Inl e), w @ [Element p selector, SelectAllText elem])
                          | None \<Rightarrow>
                              (case Input_r drv (w @ [Element p selector, SelectAllText elem])
                                      elem text of
                                 Some e \<Rightarrow>
                                   (Return (Inl e),
                                    w @ [Element p selector, SelectAllText elem, Input elem text])
                               | None \<Rightarrow>
                                   (Return (Inr (''Filled '' @ selector @ '' with '' @
                                                 quote @ text @ quote)),
                                    w @ [Element p selector, SelectAllText elem,
                                         Input elem text])))))))"

section \<open>The tool catalog (main.go, lines 114-244)\<close>

definition getTools :: "Tool list" where
  "getTools =
     [\<lparr>Name = ''rod_navigate'',
       Description = ''Navigate to a URL in the browser'',
       InputSchema = \<lparr>schema_type = ''object'',
         properties =
           [\<lparr>prop_name = ''url'', prop_type = ''string'',
             prop_description = ''The URL to navigate to''\<rparr>],
         required = Some [''url'']\<rparr>\<rparr>,
      \<lparr>Name = ''rod_click'',
       Description = ''Click an element by CSS selector'',
       InputSchema = \<lparr>schema_type = ''object'',
         properties =
           [\<lparr>prop_name = ''selector'', prop_type = ''string'',
             prop_description = ''CSS selector for the element to click''\<rparr>],
         required = Some [''selector'']\<rparr>\<rparr>,
      \<lparr>Name = ''rod_screenshot'',
       Description = ''Take a screenshot of the current page'',
       InputSchema = \<lparr>schema_type = ''object'',
         properties =
           [\<lparr>prop_name = ''filename'', prop_type = ''string'',
             prop_description = ''Optional filename for the screenshot (default: timestamp)''\<rparr>,
            \<lparr>prop_name = ''fullPage'', prop_type = ''boolean'',
             prop_description = ''Capture full page or just viewport (default: false)''\<rparr>],
         required = None\<rparr>\<rparr>,
      \<lparr>Name = ''rod_get_attribute'',
       Description = ''Get an HTML attribute value from an element (perfect for HTMX-R state)'',
       InputSchema = \<lparr>schema_type = ''object'',
         properties =
           [\<lparr>prop_name = ''selector'', prop_type = ''string'',
             prop_description = ''CSS selector for the element''\<rparr>,
            \<lparr>prop_name = ''attribute'', prop_type = ''string'',
             prop_description = ''Attribute name to read (e.g., 'data-state-loading')''\<rparr>],
         required = Some [''selector'', ''attribute'']\<rparr>\<rparr>,
      \<lparr>Name = ''rod_get_text'',
       Description = ''Get the text content of an element'',
       InputSchema = \<lparr>schema_type = ''object'',
         properties =
           [\<lparr>prop_name = ''selector'', prop_type = ''string'',
             prop_description = ''CSS selector for the element''\<rparr>],
         required = Some [''selector'']\<rparr>\<rparr>,
      \<lparr>Name = ''rod_wait_for'',
       Description = ''Wait for an element to appear'',
       InputSchema = \<lparr>schema_type = ''object'',
         properties =
           [\<lparr>prop_name = ''selector'', prop_type = ''string'',
             prop_description = ''CSS selector for the element to wait for''\<rparr>,
            \<lparr>prop_name = ''timeout'', prop_type = ''number'',
             prop_description = ''Timeout in seconds (default: 30)''\<rparr>],
         required = Some [''selector'']\<rparr>\<rparr>,
      \<lparr>Name = ''rod_eval'',
       Description = ''Execute JavaScript in the page context'',
       InputSchema = \<lparr>schema_type = ''object'',
         properties =
           [\<lparr>prop_name = ''script'', prop_type = ''string'',
             prop_description = ''JavaScript code to execute''\<rparr>],
         required = Some [''script'']\<rparr>\<rparr>,
      \<lparr>Name = ''rod_fill'',
       Description = ''Fill an input field with text'',
       InputSchema = \<lparr>schema_type = ''object'',
         properties =
           [\<lparr>prop_name = ''selector'', prop_type = ''string'',
             prop_description = ''CSS selector for the input element''\<rparr>,
            \<lparr>prop_name = ''text'', prop_type = ''string'',
             prop_description = ''Text to fill into the input''\<rparr>],
         required = Some [''selector'', ''text'']\<rparr>\<rparr>]"

section \<open>Dispatch (main.go, lines 72-112 and 246-331)\<close>

text \<open>The \<^verbatim>\<open>switch params.Name\<close> of lines 280-306; \<open>None\<close> is its default branch.\<close>

definition call_tool :: "driver \<Rightarrow> Server \<Rightarrow> world \<Rightarrow> string \<Rightarrow> arguments \<Rightarrow> tool_result option" where
  "call_tool drv s w name args =
     (if name = ''rod_navigate'' then Some (navigate drv s w args)
      else if name = ''rod_click'' then Some (click drv s w args)
      else if name = ''rod_screenshot'' then Some (screenshot drv s w args)
      else if name = ''rod_get_attribute'' then Some (getAttribute drv s w args)
      else if name = ''rod_get_text'' then Some (getText drv s w args)
      else if name = ''rod_wait_for'' then Some (waitFor drv s w args)
      else if name = ''rod_eval'' then Some (eval drv s w args)
      else if name = ''rod_fill'' then Some (fill drv s w args)
      else None)"

definition handleToolCall ::
  "driver \<Rightarrow> Server \<Rightarrow> world \<Rightarrow> MCPRequest \<Rightarrow> MCPResponse outcome \<times> Server \<times> world" where
  "handleToolCall drv s w req =
     (case Params req of
        Undecodable e \<Rightarrow>
          (Return \<lparr>rJSONRPC = ''2.0'', rID = ID req, Result = None,
                   Error = Some \<lparr>Code = - 32602, Message = ''Invalid params: '' @ e\<rparr>\<rparr>, s, w)
      | Decodes name args \<Rightarrow>
          (case (if browser s = None then initBrowser drv s w else (Return None, s, w)) of
             (Panic m, s1, w1) \<Rightarrow> (Panic m, s1, w1)
           | (Return (Some e), s1, w1) \<Rightarrow>
               (Return \<lparr>rJSONRPC = ''2.0'', rID = ID req, Result = None,
                        Error = Some \<lparr>Code = - 32603,
                                      Message = ''Failed to initialize browser: '' @ e\<rparr>\<rparr>, s1, w1)
           | (Return None, s1, w1) \<Rightarrow>
               (case call_tool drv s1 w1 name args of
                  None \<Rightarrow>
                    (Return \<lparr>rJSONRPC = ''2.0'', rID = ID req, Result = None,
                             Error = Some \<lparr>Code = - 32601,
                                           Message = ''Unknown tool: '' @ name\<rparr>\<rparr>, s1, w1)
                | Some (Panic m, w2) \<Rightarrow> (Panic m, s1, w2)
                | Some (Return (Inl e), w2) \<Rightarrow>
                    (Return \<lparr>rJSONRPC = ''2.0'', rID = ID req, Result = None,
                             Error = Some \<lparr>Code = - 32603, Message = e\<rparr>\<rparr>, s1, w2)
                | Some (Return (Inr text), w2) \<Rightarrow>
                    (Return \<lparr>rJSONRPC = ''2.0'', rID = ID req, Result = Some (Content text),
                             Error = None\<rparr>, s1, w2))))"

definition handleRequest ::
  "driver \<Rightarrow> Server \<Rightarrow> world \<Rightarrow> MCPRequest \<Rightarrow> MCPResponse outcome \<times> Server \<times> world" where
  "handleRequest drv s w req =
     (if Method req = ''initialize'' then
        (Return \<lparr>rJSONRPC = ''2.0'', rID = ID req,
                 Result = Some (InitializeResult ''2024-11-05'' ''rod-mcp-server'' ''1.0.0''),
                 Error = None\<rparr>, s, w)
      else if Method req = ''tools/list'' then
        (Return \<lparr>rJSONRPC = ''2.0'', rID = ID req, Result = Some (ToolList getTools),
                 Error = None\<rparr>, s, w)
      else if Method req = ''tools/call'' then handleToolCall drv s w req
      else
        (Return \<lparr>rJSONRPC = ''2.0'', rID = ID req, Result = None,
                 Error = Some \<lparr>Code = - 32601,
                               Message = ''Method not found: '' @ Method req\<rparr>\<rparr>, s, w))"

section \<open>The dispatch loop (main.go, lines 48-70)\<close>

text \<open>
  What \<^verbatim>\<open>decoder.Decode(&req)\<close> returns: a request, or an error, of which the loop
  tells \<^verbatim>\<open>io.EOF\<close> from all others.
\<close>

datatype decode_error =
    EOF
  | UnexpectedEOF
  | SyntaxError string
  | UnmarshalTypeError string

text \<open>How \<open>main\<close> ends: it returns after the loop, or a panic unwinds it.\<close>

datatype exit = Exited | Crashed string

text \<open>
  The loop of lines 56-69 over any decoder, given by its \<^verbatim>\<open>Decode\<close> as a step on the
  decoder's state. The loop may run forever: \<open>None\<close> is that. The result is how the
  loop ended, the server and the world at that point, and the responses handed to
  \<^verbatim>\<open>encoder.Encode\<close>, in order.
\<close>

partial_function (option) main_loop ::
  "('d \<Rightarrow> (decode_error + MCPRequest) \<times> 'd) \<Rightarrow> driver \<Rightarrow> Server \<Rightarrow> world \<Rightarrow> 'd \<Rightarrow>
   MCPResponse list \<Rightarrow> (exit \<times> Server \<times> world \<times> MCPResponse list) option" where
  "main_loop Decode drv s w d out =
     (case Decode d of
        (Inl err, d') \<Rightarrow>
          (if err = EOF then Some (Exited, s, w, out)
           else main_loop Decode drv s w d' out)
      | (Inr req, d') \<Rightarrow>
          (case handleRequest drv s w req of
             (Panic m, s', w') \<Rightarrow> Some (Crashed m, s', w', out)
           | (Return resp, s', w') \<Rightarrow> main_loop Decode drv s' w' d' (out @ [resp])))"

text \<open>
  \<open>main\<close>: the server starts with both fields nil; the deferred \<open>cleanup\<close> runs when
  the loop has ended, by return or by panic.
\<close>

definition main ::
  "('d \<Rightarrow> (decode_error + MCPRequest) \<times> 'd) \<Rightarrow> driver \<Rightarrow> 'd \<Rightarrow>
   (exit \<times> world \<times> MCPResponse list) option" where
  "main Decode drv d =
     (case main_loop Decode drv \<lparr>browser = None, page = None\<rparr> [] d [] of
        None \<Rightarrow> None
      | Some (how, s, w, out) \<Rightarrow> Some (how, cleanup drv s w, out))"

section \<open>The decoder of encoding/json\<close>

text \<open>
  The standard library's \<^verbatim>\<open>json.Decoder\<close>, as far as the loop can tell. Its input is
  cut into what successive \<^verbatim>\<open>Decode\<close> calls meet: a JSON value that fits
  \<^verbatim>\<open>MCPRequest\<close>; a JSON value that does not (\<^verbatim>\<open>Decode\<close> has read the whole value and
  returns an \<^verbatim>\<open>UnmarshalTypeError\<close>, which it does not keep); bytes that are not JSON
  (\<^verbatim>\<open>readValue\<close> stores the \<^verbatim>\<open>SyntaxError\<close> in \<^verbatim>\<open>dec.err\<close>). \<^verbatim>\<open>Decode\<close> begins with
  \<^verbatim>\<open>if dec.err != nil { return dec.err }\<close>. At the end of the input \<^verbatim>\<open>readValue\<close>
  stores and returns \<^verbatim>\<open>io.EOF\<close>, or \<^verbatim>\<open>io.ErrUnexpectedEOF\<close> when the input stops
  inside a value.
\<close>

datatype chunk =
    Value MCPRequest
  | Mistyped string
  | Malformed string

record Decoder =
  pending :: "chunk list"
  cut_short :: bool
  err :: "decode_error option"

definition Decode :: "Decoder \<Rightarrow> (decode_error + MCPRequest) \<times> Decoder" where
  "Decode dec =
     (case err dec of
        Some e \<Rightarrow> (Inl e, dec)
      | None \<Rightarrow>
          (case pending dec of
             [] \<Rightarrow>
               (if cut_short dec then (Inl UnexpectedEOF, dec\<lparr>err := Some UnexpectedEOF\<rparr>)
                else (Inl EOF, dec\<lparr>err := Some EOF\<rparr>))
           | Value req # rest \<Rightarrow> (Inr req, dec\<lparr>pending := rest\<rparr>)
           | Mistyped m # rest \<Rightarrow> (Inl (UnmarshalTypeError m), dec\<lparr>pending := rest\<rparr>)
           | Malformed m # rest \<Rightarrow> (Inl (SyntaxError m), dec\<lparr>err := Some (SyntaxError m)\<rparr>)))"

section \<open>Notions used to state the properties\<close>

text \<open>The two calls that release the session.\<close>

definition is_close :: "call \<Rightarrow> bool" where
  "is_close c = (case c of PageClose p \<Rightarrow> True | BrowserClose b \<Rightarrow> True | _ \<Rightarrow> False)"

text \<open>The \<^verbatim>\<open>"required"\<close> entry of a tool's schema; the screenshot tool has none.\<close>

definition required_of :: "Tool \<Rightarrow> string list" where
  "required_of t = (case required (InputSchema t) of None \<Rightarrow> [] | Some fs \<Rightarrow> fs)"

section \<open>Concrete drivers, servers and requests\<close>

text \<open>
  A driver on which every call succeeds, except that no element matches \<open>#missing\<close>, the
  attribute \<open>data-state-demo\<close> is absent from every element, and closing the page
  reports an error.
\<close>

definition chromium :: driver where
  "chromium =
     \<lparr>LookPath_r = (\<lambda>w. (''/usr/bin/chromium'', True)),
      MustLaunch_r = (\<lambda>w path. Inr ''ws://127.0.0.1:9222''),
      MustConnect_r = (\<lambda>w u. Inr (Browser 1)),
      MustPage_r = (\<lambda>w b. Inr \<lparr>target = 1, deadlines = []\<rparr>),
      Navigate_r = (\<lambda>w p url. None),
      WaitLoad_r = (\<lambda>w p. None),
      Element_r = (\<lambda>w p selector.
        if selector = ''#missing'' then Inl ''context canceled'' else Inr (Elem 1)),
      Click_r = (\<lambda>w e. None),
      Now_r = (\<lambda>w. 1700000000),
      TempDir_r = (\<lambda>w. ''/tmp''),
      Screenshot_r = (\<lambda>w p fullPage. Inr ''PNG''),
      WriteFile_r = (\<lambda>w path data. None),
      Attribute_r = (\<lambda>w e name.
        if name = ''data-state-demo'' then Inr None else Inr (Some ''visible'')),
      Text_r = (\<lambda>w e. Inr ''Hello''),
      Eval_r = (\<lambda>w p script. Inr ''2''),
      SelectAllText_r = (\<lambda>w e. None),
      Input_r = (\<lambda>w e text. None),
      PageClose_r = (\<lambda>w p. Some ''page already closed''),
      BrowserClose_r = (\<lambda>w b. None),
      PathJoin = (\<lambda>dir name. dir @ ''/'' @ name),
      FmtFloat = (\<lambda>x. if x = 3 / 2 then ''1.5'' else fmt_int \<lfloor>x\<rfloor>)\<rparr>"

text \<open>The same machine without a browser: \<^verbatim>\<open>LookPath\<close> finds nothing and the launch fails.\<close>

definition no_chromium :: driver where
  "no_chromium =
     chromium\<lparr>LookPath_r := (\<lambda>w. ([], False)),
              MustLaunch_r := (\<lambda>w path. Inl ''fork/exec : no such file or directory'')\<rparr>"

definition fresh :: Server where
  "fresh = \<lparr>browser = None, page = None\<rparr>"

definition live :: Server where
  "live = \<lparr>browser = Some (Browser 1), page = Some \<lparr>target = 1, deadlines = []\<rparr>\<rparr>"

definition tool_request :: "real \<Rightarrow> string \<Rightarrow> (string \<times> jvalue) list \<Rightarrow> MCPRequest" where
  "tool_request i name kvs =
     \<lparr>JSONRPC = ''2.0'', ID = JNum i, Method = ''tools/call'', Params = Decodes name (map_of kvs)\<rparr>"

text \<open>A request without params: unmarshalling the empty raw message fails.\<close>

definition plain_request :: "real \<Rightarrow> string \<Rightarrow> MCPRequest" where
  "plain_request i m =
     \<lparr>JSONRPC = ''2.0'', ID = JNum i, Method = m,
      Params = Undecodable ''unexpected end of JSON input''\<rparr>"

definition stdin :: "chunk list \<Rightarrow> Decoder" where
  "stdin cs = \<lparr>pending = cs, cut_short = False, err = None\<rparr>"

section \<open>Lemmas on the embedding\<close>

lemma is_close_simps [simp]:
  "is_close LookPath = False" "is_close (MustLaunch a) = False" "is_close (MustConnect a) = False"
  "is_close (MustPage b) = False" "is_close (Navigate p a) = False" "is_close (WaitLoad p) = False"
  "is_close (Element p a) = False" "is_close (Click e) = False" "is_close Now = False"
  "is_close TempDir = False" "is_close (MkdirAll a) = False" "is_close (Screenshot p f) = False"
  "is_close (WriteFile a c) = False" "is_close (Attribute e a) = False" "is_close (Text e) = False"
  "is_close (Eval p a) = False" "is_close (SelectAllText e) = False" "is_close (Input e a) = False"
  "is_close (PageClose p) = True" "is_close (BrowserClose b) = True"
  by (simp_all add: is_close_def)


subsection \<open>Session creation\<close>

text \<open>
  When \<open>initBrowser\<close> returns, it returns nil, it has made its four calls and both
  fields of the server are set. The branch of \<open>handleToolCall\<close> for an error returned by
  \<open>initBrowser\<close> is never taken.
\<close>

lemma initBrowser_Return:
  "initBrowser drv s w = (Return r, s', w') \<Longrightarrow>
     r = None \<and>
     (\<exists>u b p. w' = w @ [LookPath, MustLaunch (fst (LookPath_r drv w)), MustConnect u, MustPage b] \<and>
        s' = s\<lparr>browser := Some b, page := Some p\<rparr>)"
  unfolding initBrowser_def Let_def
  by (auto split: sum.splits)

lemma initBrowser_no_close:
  "initBrowser drv s w = (r, s', w') \<Longrightarrow> filter is_close w' = filter is_close w"
  unfolding initBrowser_def Let_def
  by (auto split: sum.splits)

text \<open>
  A launch that fails panics before anything is assigned; a \<^verbatim>\<open>MustPage\<close> that fails
  panics with the browser already assigned and the page still nil. Either panic is the
  outcome of the tool call that asked for the session.
\<close>

lemma initBrowser_launch_failure:
  "MustLaunch_r drv (w @ [LookPath]) (fst (LookPath_r drv w)) = Inl e \<Longrightarrow>
   initBrowser drv s w = (Panic e, s, w @ [LookPath, MustLaunch (fst (LookPath_r drv w))])"
  by (simp add: initBrowser_def Let_def)

lemma initBrowser_page_failure:
  "initBrowser drv s w = (Panic e, s', w') \<Longrightarrow> browser s = None \<Longrightarrow> browser s' = Some b \<Longrightarrow>
   page s' = page s \<and> (\<exists>u. w' = w @ [LookPath, MustLaunch (fst (LookPath_r drv w)), MustConnect u, MustPage b])"
  unfolding initBrowser_def Let_def
  by (auto split: sum.splits)

lemma tool_call_panics_with_initBrowser:
  "Method req = ''tools/call'' \<Longrightarrow> Params req = Decodes name args \<Longrightarrow> browser s = None \<Longrightarrow>
   initBrowser drv s w = (Panic e, s1, w1) \<Longrightarrow> handleRequest drv s w req = (Panic e, s1, w1)"
  by (simp add: handleRequest_def handleToolCall_def)

subsection \<open>Every tool only adds calls to the world, none of them a close\<close>

lemma navigate_extends: "navigate drv s w args = (r, w') \<Longrightarrow> \<exists>calls. w' = w @ calls"
  unfolding navigate_def by (auto split: option.splits sum.splits)

lemma click_extends: "click drv s w args = (r, w') \<Longrightarrow> \<exists>calls. w' = w @ calls"
  unfolding click_def by (auto split: option.splits sum.splits)

lemma screenshot_extends: "screenshot drv s w args = (r, w') \<Longrightarrow> \<exists>calls. w' = w @ calls"
  unfolding screenshot_def screenshot_filename_def Let_def
  by (auto split: option.splits sum.splits if_splits prod.splits)

lemma getAttribute_extends: "getAttribute drv s w args = (r, w') \<Longrightarrow> \<exists>calls. w' = w @ calls"
  unfolding getAttribute_def by (auto split: option.splits sum.splits)

lemma getText_extends: "getText drv s w args = (r, w') \<Longrightarrow> \<exists>calls. w' = w @ calls"
  unfolding getText_def by (auto split: option.splits sum.splits)

lemma waitFor_extends: "waitFor drv s w args = (r, w') \<Longrightarrow> \<exists>calls. w' = w @ calls"
  unfolding waitFor_def Let_def by (auto split: option.splits sum.splits)

lemma eval_extends: "eval drv s w args = (r, w') \<Longrightarrow> \<exists>calls. w' = w @ calls"
  unfolding eval_def by (auto split: option.splits sum.splits)

lemma fill_extends: "fill drv s w args = (r, w') \<Longrightarrow> \<exists>calls. w' = w @ calls"
  unfolding fill_def by (auto split: option.splits sum.splits)

lemma call_tool_extends:
  "call_tool drv s w name args = Some (r, w') \<Longrightarrow> \<exists>calls. w' = w @ calls"
  unfolding call_tool_def
  by (auto split: if_splits dest: navigate_extends click_extends screenshot_extends
       getAttribute_extends getText_extends waitFor_extends eval_extends fill_extends)

lemma navigate_no_close:
  "navigate drv s w args = (r, w') \<Longrightarrow> filter is_close w' = filter is_close w"
  unfolding navigate_def by (auto split: option.splits sum.splits)

lemma click_no_close:
  "click drv s w args = (r, w') \<Longrightarrow> filter is_close w' = filter is_close w"
  unfolding click_def by (auto split: option.splits sum.splits)

lemma screenshot_no_close:
  "screenshot drv s w args = (r, w') \<Longrightarrow> filter is_close w' = filter is_close w"
  unfolding screenshot_def screenshot_filename_def Let_def
  by (auto split: option.splits sum.splits if_splits prod.splits)

lemma getAttribute_no_close:
  "getAttribute drv s w args = (r, w') \<Longrightarrow> filter is_close w' = filter is_close w"
  unfolding getAttribute_def by (auto split: option.splits sum.splits)

lemma getText_no_close:
  "getText drv s w args = (r, w') \<Longrightarrow> filter is_close w' = filter is_close w"
  unfolding getText_def by (auto split: option.splits sum.splits)

lemma waitFor_no_close:
  "waitFor drv s w args = (r, w') \<Longrightarrow> filter is_close w' = filter is_close w"
  unfolding waitFor_def Let_def by (auto split: option.splits sum.splits)

lemma eval_no_close:
  "eval drv s w args = (r, w') \<Longrightarrow> filter is_close w' = filter is_close w"
  unfolding eval_def by (auto split: option.splits sum.splits)

lemma fill_no_close:
  "fill drv s w args = (r, w') \<Longrightarrow> filter is_close w' = filter is_close w"
  unfolding fill_def by (auto split: option.splits sum.splits)

lemma call_tool_no_close:
  "call_tool drv s w name args = Some (r, w') \<Longrightarrow> filter is_close w' = filter is_close w"
  unfolding call_tool_def
  by (auto split: if_splits dest: navigate_no_close click_no_close screenshot_no_close
       getAttribute_no_close getText_no_close waitFor_no_close eval_no_close fill_no_close)

lemma handleToolCall_no_close:
  assumes "handleToolCall drv s w req = (r, s', w')"
  shows "filter is_close w' = filter is_close w"
proof (cases "Params req")
  case (Undecodable e)
  with assms show ?thesis by (simp add: handleToolCall_def)
next
  case (Decodes name args)
  obtain r1 s1 w1 where
    e: "(if browser s = None then initBrowser drv s w else (Return None, s, w)) = (r1, s1, w1)"
    using prod_cases3 by blast
  have f1: "filter is_close w1 = filter is_close w"
    using e initBrowser_no_close by (auto split: if_splits)
  show ?thesis
  proof (cases "call_tool drv s1 w1 name args")
    case None
    with assms Decodes e f1 show ?thesis
      by (auto simp: handleToolCall_def split: outcome.splits option.splits)
  next
    case (Some t)
    obtain r2 w2 where t: "t = (r2, w2)" by (cases t) auto
    from call_tool_no_close Some t have f2: "filter is_close w2 = filter is_close w1" by blast
    with assms Decodes e f1 Some t show ?thesis
      by (auto simp: handleToolCall_def split: outcome.splits option.splits sum.splits)
  qed
qed

lemma handleRequest_no_close:
  "handleRequest drv s w req = (r, s', w') \<Longrightarrow> filter is_close w' = filter is_close w"
  unfolding handleRequest_def
  by (auto split: if_splits dest: handleToolCall_no_close)

subsection \<open>With a live session every request is answered\<close>

lemma call_tool_returns_when_page:
  "page s = Some p \<Longrightarrow> call_tool drv s w name args = Some (r, w') \<Longrightarrow> \<exists>v. r = Return v"
  unfolding call_tool_def navigate_def click_def screenshot_def screenshot_filename_def
    getAttribute_def getText_def waitFor_def eval_def fill_def Let_def
  by (auto split: if_splits option.splits sum.splits prod.splits)

lemma handleRequest_returns_when_live:
  assumes "browser s = Some b" and "page s = Some p"
  shows "\<exists>resp w'. handleRequest drv s w req = (Return resp, s, w')"
proof (cases "Params req")
  case (Undecodable e)
  then show ?thesis by (simp add: handleRequest_def handleToolCall_def)
next
  case (Decodes name args)
  show ?thesis
  proof (cases "call_tool drv s w name args")
    case None
    with Decodes assms show ?thesis by (simp add: handleRequest_def handleToolCall_def)
  next
    case (Some t)
    obtain r w' where t: "t = (r, w')" by (cases t) auto
    from call_tool_returns_when_page[OF assms(2)] Some t obtain v where "r = Return v" by blast
    with Decodes assms Some t show ?thesis
      by (cases v) (simp_all add: handleRequest_def handleToolCall_def)
  qed
qed

subsection \<open>The loop\<close>

text \<open>The loop itself closes nothing.\<close>

lemma main_loop_no_close:
  assumes "main_loop Dec drv s w d out = Some y"
  shows "filter is_close (fst (snd (snd y))) = filter is_close w"
proof (rule main_loop.raw_induct
    [where P = "\<lambda>Dec drv s w d out y. filter is_close (fst (snd (snd y))) = filter is_close w",
      OF _ assms], goal_cases)
  case (1 loop Dec drv s w d out y)
  show ?case
  proof (cases "Dec d")
    case (Pair r d')
    show ?thesis
    proof (cases r)
      case (Inl e)
      with Pair 1 show ?thesis by (auto split: if_splits)
    next
      case (Inr req)
      obtain r2 s2 w2 where h: "handleRequest drv s w req = (r2, s2, w2)"
        using prod_cases3 by blast
      from handleRequest_no_close[OF h] have f: "filter is_close w2 = filter is_close w" .
      show ?thesis
      proof (cases r2)
        case (Panic m)
        with Pair Inr h 1(2) f show ?thesis by auto
      next
        case (Return resp)
        with Pair Inr h 1(2) have "loop Dec drv s2 w2 d' (out @ [resp]) = Some y" by auto
        from 1(1)[OF this] f show ?thesis by simp
      qed
    qed
  qed
qed

text \<open>
  A decoder that answers an error other than \<^verbatim>\<open>io.EOF\<close> and stays as it is keeps the
  loop in its \<^verbatim>\<open>continue\<close> branch for ever.
\<close>

lemma stuck_decoder_never_returns:
  assumes "main_loop Dec drv s w d out = Some y"
  shows "\<not> (\<exists>e. e \<noteq> EOF \<and> Dec d = (Inl e, d))"
proof (rule main_loop.raw_induct
    [where P = "\<lambda>Dec drv s w d out y. \<not> (\<exists>e. e \<noteq> EOF \<and> Dec d = (Inl e, d))",
      OF _ assms], goal_cases)
  case (1 loop Dec drv s w d out y)
  show ?case
  proof
    assume "\<exists>e. e \<noteq> EOF \<and> Dec d = (Inl e, d)"
    then obtain e where e: "e \<noteq> EOF" "Dec d = (Inl e, d)" by blast
    with 1(2) have "loop Dec drv s w d out = Some y" by simp
    from 1(1)[OF this] e show False by blast
  qed
qed

text \<open>One turn of the loop, for any decoder.\<close>

lemma main_loop_at_EOF:
  "Dec d = (Inl EOF, d') \<Longrightarrow> main_loop Dec drv s w d out = Some (Exited, s, w, out)"
  by (subst main_loop.simps) simp

lemma main_loop_skips_error:
  "Dec d = (Inl e, d') \<Longrightarrow> e \<noteq> EOF \<Longrightarrow> main_loop Dec drv s w d out = main_loop Dec drv s w d' out"
  by (subst main_loop.simps) simp

text \<open>The loop over the decoder of encoding/json.\<close>

lemma Decode_kept_error:
  "err dec = Some e \<Longrightarrow> Decode dec = (Inl e, dec)"
  by (simp add: Decode_def)

lemma main_loop_kept_error:
  "err dec = Some e \<Longrightarrow> e \<noteq> EOF \<Longrightarrow> main_loop Decode drv s w dec out = None"
  using stuck_decoder_never_returns[of Decode drv s w dec out] Decode_kept_error[of dec e]
  by (cases "main_loop Decode drv s w dec out") auto

lemma main_loop_Malformed:
  "err dec = None \<Longrightarrow> pending dec = Malformed m # rest \<Longrightarrow>
   main_loop Decode drv s w dec out = None"
  by (subst main_loop.simps) (simp add: Decode_def main_loop_kept_error)

lemma main_loop_cut_short:
  "err dec = None \<Longrightarrow> pending dec = [] \<Longrightarrow> cut_short dec \<Longrightarrow>
   main_loop Decode drv s w dec out = None"
  by (subst main_loop.simps) (simp add: Decode_def main_loop_kept_error)

lemma main_loop_Mistyped:
  "err dec = None \<Longrightarrow> pending dec = Mistyped m # rest \<Longrightarrow>
   main_loop Decode drv s w dec out = main_loop Decode drv s w (dec\<lparr>pending := rest\<rparr>) out"
  by (subst main_loop.simps) (simp add: Decode_def)

lemma main_loop_end_of_input:
  "err dec = None \<Longrightarrow> pending dec = [] \<Longrightarrow> \<not> cut_short dec \<Longrightarrow>
   main_loop Decode drv s w dec out = Some (Exited, s, w, out)"
  by (subst main_loop.simps) (simp add: Decode_def)

subsection \<open>The catalog and the required arguments\<close>

lemma getTools_cases:
  assumes "t \<in> set getTools"
  shows "(Name t = ''rod_navigate'' \<and> required_of t = [''url'']) \<or>
         (Name t = ''rod_click'' \<and> required_of t = [''selector'']) \<or>
         (Name t = ''rod_screenshot'' \<and> required_of t = []) \<or>
         (Name t = ''rod_get_attribute'' \<and> required_of t = [''selector'', ''attribute'']) \<or>
         (Name t = ''rod_get_text'' \<and> required_of t = [''selector'']) \<or>
         (Name t = ''rod_wait_for'' \<and> required_of t = [''selector'']) \<or>
         (Name t = ''rod_eval'' \<and> required_of t = [''script'']) \<or>
         (Name t = ''rod_fill'' \<and> required_of t = [''selector'', ''text''])"
  using assms unfolding getTools_def required_of_def
  by (elim disjE | simp)+

lemma call_tool_missing:
  assumes "t \<in> set getTools"
    and "find (\<lambda>f. str_arg args f = None) (required_of t) = Some f"
  shows "call_tool drv s w (Name t) args = Some (Return (Inl (f @ '' must be a string'')), w)"
proof -
  from getTools_cases[OF assms(1)] show ?thesis
  proof (elim disjE conjE)
    assume "Name t = ''rod_navigate''" "required_of t = [''url'']"
    with assms(2) show ?thesis
      by (auto simp: call_tool_def navigate_def split: if_splits)
  next
    assume "Name t = ''rod_click''" "required_of t = [''selector'']"
    with assms(2) show ?thesis
      by (auto simp: call_tool_def click_def split: if_splits)
  next
    assume "Name t = ''rod_screenshot''" "required_of t = []"
    with assms(2) show ?thesis by simp
  next
    assume "Name t = ''rod_get_attribute''" "required_of t = [''selector'', ''attribute'']"
    with assms(2) show ?thesis
      by (auto simp: call_tool_def getAttribute_def split: if_splits)
  next
    assume "Name t = ''rod_get_text''" "required_of t = [''selector'']"
    with assms(2) show ?thesis
      by (auto simp: call_tool_def getText_def split: if_splits)
  next
    assume "Name t = ''rod_wait_for''" "required_of t = [''selector'']"
    with assms(2) show ?thesis
      by (auto simp: call_tool_def waitFor_def split: if_splits)
  next
    assume "Name t = ''rod_eval''" "required_of t = [''script'']"
    with assms(2) show ?thesis
      by (auto simp: call_tool_def eval_def split: if_splits)
  next
    assume "Name t = ''rod_fill''" "required_of t = [''selector'', ''text'']"
    with assms(2) show ?thesis
      by (auto simp: call_tool_def fill_def split: if_splits)
  qed
qed

subsection \<open>Runs on the concrete drivers\<close>

lemma initBrowser_chromium:
  "initBrowser chromium fresh [] =
     (Return None, live,
      [LookPath, MustLaunch ''/usr/bin/chromium'', MustConnect ''ws://127.0.0.1:9222'',
       MustPage (Browser 1)])"
  by (simp add: initBrowser_def chromium_def fresh_def live_def)

lemma navigate_live:
  "handleRequest chromium live []
     (tool_request 7 ''rod_navigate'' [(''url'', JStr ''http://localhost:8080'')]) =
     (Return \<lparr>rJSONRPC = ''2.0'', rID = JNum 7,
              Result = Some (Content ''Successfully navigated to http://localhost:8080''),
              Error = None\<rparr>,
      live,
      [Navigate \<lparr>target = 1, deadlines = []\<rparr> ''http://localhost:8080'',
       WaitLoad \<lparr>target = 1, deadlines = []\<rparr>])"
  by (simp add: handleRequest_def handleToolCall_def call_tool_def navigate_def str_arg_def
      tool_request_def live_def chromium_def)

lemma navigate_fresh:
  "handleRequest chromium fresh []
     (tool_request 7 ''rod_navigate'' [(''url'', JStr ''http://localhost:8080'')]) =
     (Return \<lparr>rJSONRPC = ''2.0'', rID = JNum 7,
              Result = Some (Content ''Successfully navigated to http://localhost:8080''),
              Error = None\<rparr>,
      live,
      [LookPath, MustLaunch ''/usr/bin/chromium'', MustConnect ''ws://127.0.0.1:9222'',
       MustPage (Browser 1),
       Navigate \<lparr>target = 1, deadlines = []\<rparr> ''http://localhost:8080'',
       WaitLoad \<lparr>target = 1, deadlines = []\<rparr>])"
  by (simp add: handleRequest_def handleToolCall_def call_tool_def navigate_def str_arg_def
      tool_request_def live_def fresh_def chromium_def initBrowser_def)

lemma unknown_tool_fresh:
  "handleRequest chromium fresh [] (tool_request 4 ''rod_hover'' []) =
     (Return \<lparr>rJSONRPC = ''2.0'', rID = JNum 4, Result = None,
              Error = Some \<lparr>Code = - 32601, Message = ''Unknown tool: rod_hover''\<rparr>\<rparr>,
      live,
      [LookPath, MustLaunch ''/usr/bin/chromium'', MustConnect ''ws://127.0.0.1:9222'',
       MustPage (Browser 1)])"
  by (simp add: handleRequest_def handleToolCall_def call_tool_def
      tool_request_def live_def fresh_def chromium_def initBrowser_def)

lemma launch_failure_panics:
  "handleRequest no_chromium fresh []
     (tool_request 1 ''rod_navigate'' [(''url'', JStr ''http://localhost:8080'')]) =
     (Panic ''fork/exec : no such file or directory'', fresh, [LookPath, MustLaunch []])"
  by (simp add: handleRequest_def handleToolCall_def tool_request_def fresh_def initBrowser_def
      no_chromium_def chromium_def)

lemma loop_navigate_then_eof:
  "main_loop Decode chromium \<lparr>browser = None, page = None\<rparr> []
     (stdin [Value (tool_request 7 ''rod_navigate'' [(''url'', JStr ''http://localhost:8080'')])]) [] =
   Some (Exited, live,
     [LookPath, MustLaunch ''/usr/bin/chromium'', MustConnect ''ws://127.0.0.1:9222'',
      MustPage (Browser 1),
      Navigate \<lparr>target = 1, deadlines = []\<rparr> ''http://localhost:8080'',
      WaitLoad \<lparr>target = 1, deadlines = []\<rparr>],
     [\<lparr>rJSONRPC = ''2.0'', rID = JNum 7,
       Result = Some (Content ''Successfully navigated to http://localhost:8080''),
       Error = None\<rparr>])"
  apply (subst main_loop.simps)
  apply (simp add: Decode_def stdin_def navigate_fresh[unfolded fresh_def])
  apply (subst main_loop.simps)
  apply (simp add: Decode_def)
  done

lemma loop_launch_failure:
  "main_loop Decode no_chromium \<lparr>browser = None, page = None\<rparr> []
     (stdin [Value (tool_request 1 ''rod_navigate'' [(''url'', JStr ''http://localhost:8080'')]),
             Value (plain_request 2 ''tools/list'')]) [] =
   Some (Crashed ''fork/exec : no such file or directory'', \<lparr>browser = None, page = None\<rparr>,
         [LookPath, MustLaunch []], [])"
  apply (subst main_loop.simps)
  apply (simp add: Decode_def stdin_def launch_failure_panics[unfolded fresh_def])
  done

subsection \<open>What waitFor does with its timeout\<close>

text \<open>
  Whatever the arguments, the one call \<open>waitFor\<close> makes is \<^verbatim>\<open>Element\<close> on the server's own
  page; the duration enters its result through the text of the error only.
\<close>

lemma waitFor_resolves_on_server_page:
  "str_arg args ''selector'' = Some selector \<Longrightarrow> page s = Some p \<Longrightarrow>
   snd (waitFor drv s w args) = w @ [Element p selector]"
  by (simp add: waitFor_def Let_def split: sum.splits)

lemma Timeout_is_another_page:
  "Timeout p d \<noteq> p"
  by (cases p) (simp add: Timeout_def)

section \<open>The claims\<close>

text \<open>
  C1. Claimed: every \<^verbatim>\<open>rod_wait_for\<close> call sets the page's timeout to the requested
  duration before the element is resolved, and restores it afterwards. The code does not:
  a call with selector \<open>#missing\<close> and a timeout of 1.5 seconds converts the float64 to
  an integer first, so the duration it computes is one second; the page it hands that
  duration to is the clone returned by \<^verbatim>\<open>Timeout\<close>, which it drops; and the element is
  resolved on the server's own page, whose context has no deadline. Only the error text
  carries the requested 1.5 seconds.
\<close>

theorem waitFor_never_applies_timeout:
  "seconds_to_duration (3 / 2) = Second \<and>
   Timeout \<lparr>target = 1, deadlines = []\<rparr> (seconds_to_duration (3 / 2)) =
     \<lparr>target = 1, deadlines = [1000000000]\<rparr> \<and>
   waitFor chromium live []
     (map_of [(''selector'', JStr ''#missing''), (''timeout'', JNum (3 / 2))]) =
     (Return (Inl ''element #missing did not appear within 1.5 seconds''),
      [Element \<lparr>target = 1, deadlines = []\<rparr> ''#missing''])"
proof (intro conjI)
  show "seconds_to_duration (3 / 2) = Second"
    by (simp add: seconds_to_duration_def truncate_float_def)
  show "Timeout \<lparr>target = 1, deadlines = []\<rparr> (seconds_to_duration (3 / 2)) =
     \<lparr>target = 1, deadlines = [1000000000]\<rparr>"
    by (simp add: seconds_to_duration_def truncate_float_def Timeout_def Second_def)
  show "waitFor chromium live []
     (map_of [(''selector'', JStr ''#missing''), (''timeout'', JNum (3 / 2))]) =
     (Return (Inl ''element #missing did not appear within 1.5 seconds''),
      [Element \<lparr>target = 1, deadlines = []\<rparr> ''#missing''])"
    by (simp add: waitFor_def str_arg_def waitFor_timeout_def float_arg_def live_def chromium_def)
qed

text \<open>
  C2. Claimed: a failure to create the session becomes an error response for the request
  that triggered it and is never fatal to the process. The code does not: \<open>initBrowser\<close>
  calls the panicking \<^verbatim>\<open>Must\<close> methods. On a machine where the launch fails, the first
  \<^verbatim>\<open>tools/call\<close> request panics, no response is written for it, the loop is left and the
  request behind it is never read.
\<close>

theorem launch_failure_is_fatal:
  "handleRequest no_chromium fresh []
     (tool_request 1 ''rod_navigate'' [(''url'', JStr ''http://localhost:8080'')]) =
     (Panic ''fork/exec : no such file or directory'', fresh, [LookPath, MustLaunch []]) \<and>
   main Decode no_chromium
     (stdin [Value (tool_request 1 ''rod_navigate'' [(''url'', JStr ''http://localhost:8080'')]),
             Value (plain_request 2 ''tools/list'')]) =
     Some (Crashed ''fork/exec : no such file or directory'', [LookPath, MustLaunch []], [])"
proof
  show "handleRequest no_chromium fresh []
     (tool_request 1 ''rod_navigate'' [(''url'', JStr ''http://localhost:8080'')]) =
     (Panic ''fork/exec : no such file or directory'', fresh, [LookPath, MustLaunch []])"
    by (rule launch_failure_panics)
  show "main Decode no_chromium
     (stdin [Value (tool_request 1 ''rod_navigate'' [(''url'', JStr ''http://localhost:8080'')]),
             Value (plain_request 2 ''tools/list'')]) =
     Some (Crashed ''fork/exec : no such file or directory'', [LookPath, MustLaunch []], [])"
    by (simp add: main_def loop_launch_failure cleanup_def)
qed

text \<open>
  C3. Claimed: a decode failure other than end of stream skips the malformed unit, and the
  loop goes on to the requests behind it. The code does not when the failure is a syntax
  error: the decoder keeps that error and returns it from every later \<^verbatim>\<open>Decode\<close>, the
  loop takes its \<^verbatim>\<open>continue\<close> branch each time, and \<open>main\<close> never returns; the
  well-formed \<^verbatim>\<open>initialize\<close> request behind the malformed bytes is never answered. The
  same holds when the input stops inside a value.
\<close>

theorem syntax_error_stalls_loop:
  "main Decode chromium
     (stdin [Malformed ''invalid character } looking for beginning of value'',
             Value (plain_request 2 ''initialize'')]) = None \<and>
   main Decode chromium \<lparr>pending = [], cut_short = True, err = None\<rparr> = None"
  by (simp add: main_def main_loop_Malformed main_loop_cut_short stdin_def)

text \<open>
  C4. Whenever the dispatcher produces a response for a request, the response carries the
  request's identifier, and exactly one of its result and its error is set. The
  identifier is only echoed: the same request under any other identifier gets the same
  response but for the identifier, and leaves the same server and world.
\<close>

theorem response_echoes_id_result_xor_error:
  assumes "handleRequest drv s w req = (Return resp, s', w')"
  shows "rID resp = ID req \<and> (Result resp = None) \<noteq> (Error resp = None) \<and>
         handleRequest drv s w (req\<lparr>ID := i\<rparr>) = (Return (resp\<lparr>rID := i\<rparr>), s', w')"
  using assms unfolding handleRequest_def handleToolCall_def
  by (auto split: if_splits raw_params.splits prod.splits outcome.splits option.splits sum.splits)

theorem response_echoes_id_result_xor_error_witness:
  "handleRequest chromium live []
     (tool_request 7 ''rod_navigate'' [(''url'', JStr ''http://localhost:8080'')]) =
     (Return \<lparr>rJSONRPC = ''2.0'', rID = JNum 7,
              Result = Some (Content ''Successfully navigated to http://localhost:8080''),
              Error = None\<rparr>,
      live,
      [Navigate \<lparr>target = 1, deadlines = []\<rparr> ''http://localhost:8080'',
       WaitLoad \<lparr>target = 1, deadlines = []\<rparr>]) \<and>
   rID \<lparr>rJSONRPC = ''2.0'', rID = JNum 7,
        Result = Some (Content ''Successfully navigated to http://localhost:8080''),
        Error = None\<rparr> =
     ID (tool_request 7 ''rod_navigate'' [(''url'', JStr ''http://localhost:8080'')]) \<and>
   handleRequest chromium live []
     ((tool_request 7 ''rod_navigate'' [(''url'', JStr ''http://localhost:8080'')])
        \<lparr>ID := JStr ''seven''\<rparr>) =
     (Return \<lparr>rJSONRPC = ''2.0'', rID = JStr ''seven'',
              Result = Some (Content ''Successfully navigated to http://localhost:8080''),
              Error = None\<rparr>,
      live,
      [Navigate \<lparr>target = 1, deadlines = []\<rparr> ''http://localhost:8080'',
       WaitLoad \<lparr>target = 1, deadlines = []\<rparr>])"
  using response_echoes_id_result_xor_error [OF navigate_live, of "JStr ''seven''"] navigate_live
  by simp

text \<open>
  C5. A \<^verbatim>\<open>tools/call\<close> request names a tool \<open>t\<close> of the catalog, and \<open>f\<close> is the first
  of the arguments the catalog requires of \<open>t\<close> that is missing or not a string. Then the
  request is answered with the error \<open>f must be a string\<close> (code -32603) and no result,
  from the state in which the session check leaves the server; the one other outcome is
  the panic of a session creation that fails. Whenever a response is returned it is that
  error, the session is set afterwards, and a session that existed before is left as it
  was, with the world unchanged.
\<close>

theorem missing_required_argument:
  assumes "Method req = ''tools/call''"
    and "Params req = Decodes (Name t) args"
    and "t \<in> set getTools"
    and "find (\<lambda>f. str_arg args f = None) (required_of t) = Some f"
  shows "handleRequest drv s w req =
           (case (if browser s = None then initBrowser drv s w else (Return None, s, w)) of
              (Panic m, s1, w1) \<Rightarrow> (Panic m, s1, w1)
            | (Return r, s1, w1) \<Rightarrow>
                (Return \<lparr>rJSONRPC = ''2.0'', rID = ID req, Result = None,
                         Error = Some \<lparr>Code = - 32603, Message = f @ '' must be a string''\<rparr>\<rparr>,
                 s1, w1)) \<and>
         (\<forall>resp s' w'. handleRequest drv s w req = (Return resp, s', w') \<longrightarrow>
            resp = \<lparr>rJSONRPC = ''2.0'', rID = ID req, Result = None,
                    Error = Some \<lparr>Code = - 32603, Message = f @ '' must be a string''\<rparr>\<rparr> \<and>
            browser s' \<noteq> None \<and>
            (if browser s = None then initBrowser drv s w = (Return None, s', w') \<and> page s' \<noteq> None
             else s' = s \<and> w' = w))"
proof -
  obtain r1 s1 w1 where
    e: "(if browser s = None then initBrowser drv s w else (Return None, s, w)) = (r1, s1, w1)"
    using prod_cases3 by blast
  have first: "handleRequest drv s w req =
           (case (if browser s = None then initBrowser drv s w else (Return None, s, w)) of
              (Panic m, s1, w1) \<Rightarrow> (Panic m, s1, w1)
            | (Return r, s1, w1) \<Rightarrow>
                (Return \<lparr>rJSONRPC = ''2.0'', rID = ID req, Result = None,
                         Error = Some \<lparr>Code = - 32603, Message = f @ '' must be a string''\<rparr>\<rparr>,
                 s1, w1))"
  proof (cases r1)
    case (Panic m)
    with assms(1,2) e show ?thesis
      by (simp add: handleRequest_def handleToolCall_def)
  next
    case (Return r)
    with e have "r = None"
      by (auto split: if_splits dest: initBrowser_Return)
    with Return assms(1,2) e call_tool_missing[OF assms(3,4), of drv s1 w1] show ?thesis
      by (simp add: handleRequest_def handleToolCall_def)
  qed
  show ?thesis
  proof (intro conjI allI impI)
    show "handleRequest drv s w req =
           (case (if browser s = None then initBrowser drv s w else (Return None, s, w)) of
              (Panic m, s1, w1) \<Rightarrow> (Panic m, s1, w1)
            | (Return r, s1, w1) \<Rightarrow>
                (Return \<lparr>rJSONRPC = ''2.0'', rID = ID req, Result = None,
                         Error = Some \<lparr>Code = - 32603, Message = f @ '' must be a string''\<rparr>\<rparr>,
                 s1, w1))"
      by (rule first)
  next
    fix resp s' w'
    assume h: "handleRequest drv s w req = (Return resp, s', w')"
    from h first e obtain r where r: "r1 = Return r" "s' = s1" "w' = w1"
      and resp: "resp = \<lparr>rJSONRPC = ''2.0'', rID = ID req, Result = None,
                    Error = Some \<lparr>Code = - 32603, Message = f @ '' must be a string''\<rparr>\<rparr>"
      by (cases r1) auto
    from resp show "resp = \<lparr>rJSONRPC = ''2.0'', rID = ID req, Result = None,
                    Error = Some \<lparr>Code = - 32603, Message = f @ '' must be a string''\<rparr>\<rparr>" .
    from e r show "browser s' \<noteq> None"
      by (auto split: if_splits dest!: initBrowser_Return)
    from e r show "if browser s = None then initBrowser drv s w = (Return None, s', w') \<and> page s' \<noteq> None
             else s' = s \<and> w' = w"
      by (auto split: if_splits dest!: initBrowser_Return)
  qed
qed

theorem missing_required_argument_witness:
  "handleRequest chromium live []
     (tool_request 5 ''rod_get_attribute'' [(''selector'', JStr ''#app'')]) =
     (Return \<lparr>rJSONRPC = ''2.0'', rID = JNum 5, Result = None,
              Error = Some \<lparr>Code = - 32603, Message = ''attribute must be a string''\<rparr>\<rparr>,
      live, []) \<and>
   handleRequest chromium fresh [] (tool_request 6 ''rod_navigate'' [(''url'', JNum 8080)]) =
     (Return \<lparr>rJSONRPC = ''2.0'', rID = JNum 6, Result = None,
              Error = Some \<lparr>Code = - 32603, Message = ''url must be a string''\<rparr>\<rparr>,
      live,
      [LookPath, MustLaunch ''/usr/bin/chromium'', MustConnect ''ws://127.0.0.1:9222'',
       MustPage (Browser 1)]) \<and>
   handleRequest chromium live []
     (tool_request 7 ''rod_navigate'' [(''url'', JStr ''http://localhost:8080'')]) =
     (Return \<lparr>rJSONRPC = ''2.0'', rID = JNum 7,
              Result = Some (Content ''Successfully navigated to http://localhost:8080''),
              Error = None\<rparr>,
      live,
      [Navigate \<lparr>target = 1, deadlines = []\<rparr> ''http://localhost:8080'',
       WaitLoad \<lparr>target = 1, deadlines = []\<rparr>])"
proof -
  let ?t = "getTools ! 3"
  let ?r = "tool_request 5 ''rod_get_attribute'' [(''selector'', JStr ''#app'')]"
  let ?a = "map_of [(''selector'', JStr ''#app'')]"
  have t: "?t \<in> set getTools"
    by (simp add: getTools_def)
  have tm: "Method ?r = ''tools/call''"
    by (simp add: tool_request_def)
  have tp: "Params ?r = Decodes (Name ?t) ?a"
    by (simp add: tool_request_def getTools_def)
  have tf: "find (\<lambda>f. str_arg ?a f = None) (required_of ?t) = Some ''attribute''"
    by (simp add: getTools_def required_of_def str_arg_def)
  have tb: "browser live \<noteq> None"
    by (simp add: live_def)
  have 1: "handleRequest chromium live [] ?r =
     (Return \<lparr>rJSONRPC = ''2.0'', rID = JNum 5, Result = None,
              Error = Some \<lparr>Code = - 32603, Message = ''attribute must be a string''\<rparr>\<rparr>,
      live, [])"
    using missing_required_argument [OF tm tp t tf, of chromium live "[]", THEN conjunct1] tb
    by (simp add: tool_request_def)
  let ?u = "getTools ! 0"
  let ?q = "tool_request 6 ''rod_navigate'' [(''url'', JNum 8080)]"
  let ?b = "map_of [(''url'', JNum 8080)]"
  have u: "?u \<in> set getTools"
    by (simp add: getTools_def)
  have um: "Method ?q = ''tools/call''"
    by (simp add: tool_request_def)
  have up: "Params ?q = Decodes (Name ?u) ?b"
    by (simp add: tool_request_def getTools_def)
  have uf: "find (\<lambda>f. str_arg ?b f = None) (required_of ?u) = Some ''url''"
    by (simp add: getTools_def required_of_def str_arg_def)
  have ub: "browser fresh = None"
    by (simp add: fresh_def)
  have 2: "handleRequest chromium fresh [] ?q =
     (Return \<lparr>rJSONRPC = ''2.0'', rID = JNum 6, Result = None,
              Error = Some \<lparr>Code = - 32603, Message = ''url must be a string''\<rparr>\<rparr>,
      live,
      [LookPath, MustLaunch ''/usr/bin/chromium'', MustConnect ''ws://127.0.0.1:9222'',
       MustPage (Browser 1)])"
    using missing_required_argument [OF um up u uf, of chromium fresh "[]", THEN conjunct1] ub
    by (simp add: tool_request_def initBrowser_chromium)
  from 1 2 navigate_live show ?thesis by simp
qed

text \<open>
  C6. A \<^verbatim>\<open>rod_get_attribute\<close> call whose selector resolves to an element that lacks the
  named attribute (the driver answers a nil value and no error) is answered with a
  result, not an error, and the text of the result says that the attribute was not found
  on the selector.
\<close>

theorem absent_attribute_is_a_result:
  assumes "Method req = ''tools/call''"
    and "Params req = Decodes ''rod_get_attribute'' args"
    and "args ''selector'' = Some (JStr selector)"
    and "args ''attribute'' = Some (JStr attribute)"
    and "browser s = Some b" and "page s = Some p"
    and "Element_r drv w p selector = Inr elem"
    and "Attribute_r drv (w @ [Element p selector]) elem attribute = Inr None"
  shows "handleRequest drv s w req =
           (Return \<lparr>rJSONRPC = ''2.0'', rID = ID req,
                    Result = Some (Content (''Attribute '' @ quote @ attribute @ quote @
                                            '' not found on '' @ selector)),
                    Error = None\<rparr>,
            s, w @ [Element p selector, Attribute elem attribute])"
  using assms
  by (simp add: handleRequest_def handleToolCall_def call_tool_def getAttribute_def str_arg_def)

theorem absent_attribute_is_a_result_witness:
  "handleRequest chromium live []
     (tool_request 3 ''rod_get_attribute''
        [(''selector'', JStr ''[data-state-demo]''), (''attribute'', JStr ''data-state-demo'')]) =
     (Return \<lparr>rJSONRPC = ''2.0'', rID = JNum 3,
              Result = Some (Content (''Attribute '' @ quote @ ''data-state-demo'' @ quote @
                                      '' not found on [data-state-demo]'')),
              Error = None\<rparr>,
      live,
      [Element \<lparr>target = 1, deadlines = []\<rparr> ''[data-state-demo]'',
       Attribute (Elem 1) ''data-state-demo''])"
  using absent_attribute_is_a_result
    [of "tool_request 3 ''rod_get_attribute''
           [(''selector'', JStr ''[data-state-demo]''), (''attribute'', JStr ''data-state-demo'')]"
        "map_of [(''selector'', JStr ''[data-state-demo]''),
                 (''attribute'', JStr ''data-state-demo'')]"
        "''[data-state-demo]''" "''data-state-demo''" live "Browser 1"
        "\<lparr>target = 1, deadlines = []\<rparr>" chromium "[]" "Elem 1"]
  by (simp add: tool_request_def live_def chromium_def)

text \<open>
  C7. Every \<^verbatim>\<open>tools/list\<close> request, in any state of the server and of the world, is
  answered with the same catalog and leaves both as they were; so does any sequence of
  such requests. The catalog has eight tools, with the names listed.
\<close>

theorem tools_list_static_catalog:
  assumes "\<forall>req \<in> set reqs. Method req = ''tools/list''"
  shows "(\<forall>req \<in> set reqs. \<forall>s w.
            handleRequest drv s w req =
              (Return \<lparr>rJSONRPC = ''2.0'', rID = ID req, Result = Some (ToolList getTools),
                       Error = None\<rparr>, s, w)) \<and>
         fold (\<lambda>req (s, w). snd (handleRequest drv s w req)) reqs (s0, w0) = (s0, w0) \<and>
         length getTools = 8 \<and>
         map Name getTools =
           [''rod_navigate'', ''rod_click'', ''rod_screenshot'', ''rod_get_attribute'',
            ''rod_get_text'', ''rod_wait_for'', ''rod_eval'', ''rod_fill'']"
proof (intro conjI)
  show "\<forall>req \<in> set reqs. \<forall>s w.
            handleRequest drv s w req =
              (Return \<lparr>rJSONRPC = ''2.0'', rID = ID req, Result = Some (ToolList getTools),
                       Error = None\<rparr>, s, w)"
    using assms by (simp add: handleRequest_def)
  show "fold (\<lambda>req (s, w). snd (handleRequest drv s w req)) reqs (s0, w0) = (s0, w0)"
    using assms by (induction reqs) (simp_all add: handleRequest_def)
  show "length getTools = 8" by (simp add: getTools_def)
  show "map Name getTools =
           [''rod_navigate'', ''rod_click'', ''rod_screenshot'', ''rod_get_attribute'',
            ''rod_get_text'', ''rod_wait_for'', ''rod_eval'', ''rod_fill'']"
    by (simp add: getTools_def)
qed

theorem tools_list_static_catalog_witness:
  "handleRequest chromium live [] (plain_request 1 ''tools/list'') =
     (Return \<lparr>rJSONRPC = ''2.0'', rID = JNum 1, Result = Some (ToolList getTools),
              Error = None\<rparr>,
      live, []) \<and>
   handleRequest chromium fresh [LookPath] (plain_request 2 ''tools/list'') =
     (Return \<lparr>rJSONRPC = ''2.0'', rID = JNum 2, Result = Some (ToolList getTools),
              Error = None\<rparr>,
      fresh, [LookPath]) \<and>
   fold (\<lambda>req (s, w). snd (handleRequest chromium s w req))
     [plain_request 1 ''tools/list'', plain_request 2 ''tools/list''] (live, []) = (live, [])"
proof -
  have a: "\<forall>req \<in> set [plain_request 1 ''tools/list'', plain_request 2 ''tools/list''].
             Method req = ''tools/list''"
    by (simp add: plain_request_def)
  from tools_list_static_catalog [OF a, of chromium live "[]"]
  show ?thesis by (simp add: plain_request_def)
qed

text \<open>
  C8. Whenever the loop ends, by end of input or by a panic, and whatever the decoder and
  the driver, \<open>main\<close> ends the same way after \<open>cleanup\<close>: the world of the whole run is the
  world the loop left, followed by the close of the page when there is one and then the
  close of the browser when there is one, whatever either close answers; and these are
  the only closes of the run.
\<close>

theorem cleanup_once_at_exit:
  assumes "main_loop Dec drv \<lparr>browser = None, page = None\<rparr> [] d [] = Some (how, s, w, out)"
  shows "\<exists>closes. main Dec drv d = Some (how, w @ closes, out) \<and>
           closes = (case page s of None \<Rightarrow> [] | Some p \<Rightarrow> [PageClose p]) @
                    (case browser s of None \<Rightarrow> [] | Some b \<Rightarrow> [BrowserClose b]) \<and>
           filter is_close (w @ closes) = closes"
proof -
  from main_loop_no_close[OF assms] have "filter is_close w = []" by simp
  with assms show ?thesis
    by (auto simp: main_def cleanup_def Let_def split: option.splits)
qed

theorem cleanup_once_at_exit_witness:
  "main Decode chromium
     (stdin [Value (tool_request 7 ''rod_navigate'' [(''url'', JStr ''http://localhost:8080'')])]) =
   Some (Exited,
     [LookPath, MustLaunch ''/usr/bin/chromium'', MustConnect ''ws://127.0.0.1:9222'',
      MustPage (Browser 1),
      Navigate \<lparr>target = 1, deadlines = []\<rparr> ''http://localhost:8080'',
      WaitLoad \<lparr>target = 1, deadlines = []\<rparr>,
      PageClose \<lparr>target = 1, deadlines = []\<rparr>, BrowserClose (Browser 1)],
     [\<lparr>rJSONRPC = ''2.0'', rID = JNum 7,
       Result = Some (Content ''Successfully navigated to http://localhost:8080''),
       Error = None\<rparr>]) \<and>
   PageClose_r chromium
     [LookPath, MustLaunch ''/usr/bin/chromium'', MustConnect ''ws://127.0.0.1:9222'',
      MustPage (Browser 1),
      Navigate \<lparr>target = 1, deadlines = []\<rparr> ''http://localhost:8080'',
      WaitLoad \<lparr>target = 1, deadlines = []\<rparr>]
     \<lparr>target = 1, deadlines = []\<rparr> = Some ''page already closed'' \<and>
   main Decode no_chromium
     (stdin [Value (tool_request 1 ''rod_navigate'' [(''url'', JStr ''http://localhost:8080'')]),
             Value (plain_request 2 ''tools/list'')]) =
   Some (Crashed ''fork/exec : no such file or directory'', [LookPath, MustLaunch []], [])"
  using cleanup_once_at_exit [OF loop_navigate_then_eof]
    cleanup_once_at_exit [OF loop_launch_failure]
  by (simp add: live_def chromium_def)

text \<open>
  C9. Claimed: every \<^verbatim>\<open>tools/call\<close> request that arrives while the session is absent
  creates the session before the tool name is looked up and the arguments are validated.
  This fails for a request whose params do not decode, such as one whose
  \<^verbatim>\<open>arguments\<close> is a string: \<open>handleToolCall\<close> answers it with the invalid-params
  error before it looks at the session, so the browser is not launched and the session
  stays absent.
\<close>

theorem undecodable_params_launch_nothing:
  "handleRequest chromium \<lparr>browser = None, page = None\<rparr> []
     \<lparr>JSONRPC = ''2.0'', ID = JNum 1, Method = ''tools/call'',
      Params = Undecodable
        ''json: cannot unmarshal string into Go struct field .arguments of type map[string]interface {}''\<rparr> =
     (Return \<lparr>rJSONRPC = ''2.0'', rID = JNum 1, Result = None,
              Error = Some \<lparr>Code = - 32602,
                Message = ''Invalid params: json: cannot unmarshal string into Go struct field .arguments of type map[string]interface {}''\<rparr>\<rparr>,
      \<lparr>browser = None, page = None\<rparr>, [])"
  by (simp add: handleRequest_def handleToolCall_def)

text \<open>
  C9, amended. A \<^verbatim>\<open>tools/call\<close> request whose params decode arrives while the session
  is absent, and a response is returned for it. Then \<open>initBrowser\<close> has run first and has
  returned: its four calls are the first the request adds to the world, the server is
  left with the browser and the page it created, and the response and the rest of the
  world are those of the same request handled with that session, whatever the tool
  name and the arguments are.
\<close>

theorem session_created_before_dispatch:
  assumes "Method req = ''tools/call''"
    and "Params req = Decodes name args"
    and "browser s = None"
    and "handleRequest drv s w req = (Return resp, s', w')"
  shows "\<exists>w1 u b calls.
           initBrowser drv s w = (Return None, s', w1) \<and>
           w1 = w @ [LookPath, MustLaunch (fst (LookPath_r drv w)), MustConnect u, MustPage b] \<and>
           browser s' = Some b \<and> page s' \<noteq> None \<and>
           handleRequest drv s' w1 req = (Return resp, s', w') \<and>
           w' = w1 @ calls"
proof -
  obtain r1 s1 w1 where i: "initBrowser drv s w = (r1, s1, w1)"
    using prod_cases3 by blast
  from assms i obtain r0 where r1: "r1 = Return r0"
    by (cases r1) (auto simp: handleRequest_def handleToolCall_def)
  from initBrowser_Return[OF i[unfolded r1]] obtain u b p where
    r0: "r0 = None" and
    w1: "w1 = w @ [LookPath, MustLaunch (fst (LookPath_r drv w)), MustConnect u, MustPage b]" and
    s1: "s1 = s\<lparr>browser := Some b, page := Some p\<rparr>"
    by blast
  from s1 have b1: "browser s1 = Some b" "page s1 \<noteq> None" by simp_all
  have s': "s' = s1"
    using assms i r1 r0
    by (auto simp: handleRequest_def handleToolCall_def
        split: option.splits prod.splits outcome.splits sum.splits)
  have again: "handleRequest drv s1 w1 req = (Return resp, s', w')"
    using assms i r1 r0 b1
    by (auto simp: handleRequest_def handleToolCall_def
        split: option.splits prod.splits outcome.splits sum.splits)
  have "\<exists>calls. w' = w1 @ calls"
  proof (cases "call_tool drv s1 w1 name args")
    case None
    with assms i r1 r0 show ?thesis
      by (auto simp: handleRequest_def handleToolCall_def)
  next
    case (Some t)
    obtain r2 w2 where t: "t = (r2, w2)" by (cases t) auto
    from call_tool_extends Some t obtain calls where "w2 = w1 @ calls" by blast
    with assms i r1 r0 Some t show ?thesis
      by (auto simp: handleRequest_def handleToolCall_def split: outcome.splits sum.splits)
  qed
  with i r1 r0 w1 b1 s' again show ?thesis by auto
qed

theorem session_created_before_dispatch_witness:
  "handleRequest chromium fresh [] (tool_request 4 ''rod_hover'' []) =
     (Return \<lparr>rJSONRPC = ''2.0'', rID = JNum 4, Result = None,
              Error = Some \<lparr>Code = - 32601, Message = ''Unknown tool: rod_hover''\<rparr>\<rparr>,
      live,
      [LookPath, MustLaunch ''/usr/bin/chromium'', MustConnect ''ws://127.0.0.1:9222'',
       MustPage (Browser 1)]) \<and>
   initBrowser chromium fresh [] =
     (Return None, live,
      [LookPath, MustLaunch ''/usr/bin/chromium'', MustConnect ''ws://127.0.0.1:9222'',
       MustPage (Browser 1)]) \<and>
   browser live = Some (Browser 1) \<and> page live \<noteq> None"
proof -
  have m: "Method (tool_request 4 ''rod_hover'' []) = ''tools/call''"
    and p: "Params (tool_request 4 ''rod_hover'' []) = Decodes ''rod_hover'' (map_of [])"
    and b: "browser fresh = None"
    by (simp_all add: tool_request_def fresh_def)
  from session_created_before_dispatch [OF m p b unknown_tool_fresh]
  show ?thesis
    using unknown_tool_fresh by (auto simp: chromium_def)
qed



end
